theory Spec2Isabelle
  imports Complex_Main
begin

section \<open>Python values, errors and pandas series\<close>

text \<open>
  Exceptions that the modelled code or the pandas calls it makes can raise.
  A function that can raise returns \<open>pyerror + 'a\<close>, with \<open>Inl\<close> for the raise.
\<close>

datatype pyerror = ValueError | DataError | IndexError

text \<open>
  A cell of a numeric pandas column: \<open>None\<close> is NaN, \<open>Some q\<close> a number.
  Numbers are exact rationals here; the float64 rounding of pandas is not modelled.
\<close>

type_synonym cell = "rat option"

text \<open>A column is numeric, or holds objects on which no mean can be taken.\<close>

datatype column = Numeric "cell list" | NonNumeric "string list"

fun column_len :: "column \<Rightarrow> nat" where
  "column_len (Numeric xs) = length xs"
| "column_len (NonNumeric ss) = length ss"

text \<open>
  A DataFrame: the length of its index and its named columns.
  \<open>len(df)\<close> is \<open>index_len\<close>, \<open>df.columns\<close> the names, \<open>df['close']\<close> a lookup.
\<close>

record dataframe =
  index_len :: nat
  columns :: "(string \<times> column) list"

definition wf_dataframe :: "dataframe \<Rightarrow> bool" where
  "wf_dataframe df \<longleftrightarrow>
     distinct (map fst (columns df)) \<and>
     list_all (\<lambda>(name, c). column_len c = index_len df) (columns df)"

text \<open>\<open>df.empty\<close>: true when any axis has length zero.\<close>

definition empty_df :: "dataframe \<Rightarrow> bool" where
  "empty_df df \<longleftrightarrow> index_len df = 0 \<or> columns df = []"

text \<open>The values \<open>generate_signal\<close> can be handed as \<open>historical_data\<close>.\<close>

datatype pyvalue = PyNone | PyList "rat list" | PyStr string | DataFrame dataframe

text \<open>\<open>s.isna().sum()\<close>: the number of NaN cells.\<close>

definition isna_sum :: "cell list \<Rightarrow> nat" where
  "isna_sum xs = length (filter (\<lambda>c. c = None) xs)"

text \<open>
  \<open>s.iloc[i]\<close> for an integer position; a negative position counts from the end,
  a position outside the series raises IndexError.
\<close>

definition iloc :: "'a list \<Rightarrow> int \<Rightarrow> pyerror + 'a" where
  "iloc xs i =
     (let pos = (if i < 0 then i + int (length xs) else i)
      in if pos < 0 \<or> int (length xs) \<le> pos then Inl IndexError
         else Inr (xs ! nat pos))"

text \<open>
  \<open>s.rolling(window=w).mean()\<close> at position \<open>i\<close>. The window holds the cells at
  positions \<open>i - w + 1 .. i\<close> that exist; \<open>min_periods\<close> defaults to \<open>w\<close>, so the
  mean is defined only when the window holds at least \<open>w\<close> numbers (and at least one).
\<close>

definition rolling_mean_at :: "nat \<Rightarrow> cell list \<Rightarrow> nat \<Rightarrow> cell" where
  "rolling_mean_at w xs i =
     (let win = drop (Suc i - w) (take (Suc i) xs);
          obs = map the (filter (\<lambda>c. c \<noteq> None) win);
          nobs = length obs
      in if w \<le> nobs \<and> 0 < nobs then Some (sum_list obs / of_nat nobs) else None)"

text \<open>
  The whole rolling mean. pandas raises ValueError for a negative window and
  DataError for a column with no numeric type.
\<close>

definition rolling_mean :: "int \<Rightarrow> column \<Rightarrow> pyerror + cell list" where
  "rolling_mean window c =
     (if window < 0 then Inl ValueError
      else case c of
             NonNumeric ss \<Rightarrow> Inl DataError
           | Numeric xs \<Rightarrow> Inr (map (rolling_mean_at (nat window) xs) [0..<length xs]))"

section \<open>MovingAverageCrossoverSignalGenerator\<close>

record crossover =
  short_window :: int
  long_window :: int

text \<open>\<open>__init__\<close>: raises ValueError unless \<open>short_window < long_window\<close>.\<close>

definition crossover_init :: "int \<Rightarrow> int \<Rightarrow> pyerror + crossover" where
  "crossover_init sw lw =
     (if sw \<ge> lw then Inl ValueError
      else Inr \<lparr>short_window = sw, long_window = lw\<rparr>)"

text \<open>
  The record that \<open>generate_signal\<close> logs at warning, error or info level when it
  returns: one per return statement of the source, in source order.
\<close>

datatype log_record =
    NotDataFrame
  | NoneOrEmpty
  | NoCloseColumn
  | NotEnoughData
  | ErrorCalculatingSMAs
  | NotEnoughNonNaN
  | NaNEncountered
  | SignalGenerated

text \<open>
  The tail of \<open>generate_signal\<close>, from the NaN test on the four trailing averages
  to the crossover rule.
\<close>

definition crossover_rule :: "cell \<Rightarrow> cell \<Rightarrow> cell \<Rightarrow> cell \<Rightarrow> string \<times> log_record" where
  "crossover_rule current_short_sma previous_short_sma current_long_sma previous_long_sma =
     (case (current_short_sma, previous_short_sma, current_long_sma, previous_long_sma) of
        (Some cs, Some ps, Some cl, Some pl) \<Rightarrow>
          if cs > cl \<and> ps \<le> pl then (''BUY'', SignalGenerated)
          else if cs < cl \<and> ps \<ge> pl then (''SELL'', SignalGenerated)
          else (''HOLD'', SignalGenerated)
      | _ \<Rightarrow> (''HOLD'', NaNEncountered))"

text \<open>
  The part of \<open>generate_signal\<close> after both averages are computed: the guard on the
  NaN counts, then the four \<open>iloc\<close> reads (outside the try block, so an IndexError
  there would reach the caller), then the rule.
\<close>

definition compare_smas :: "cell list \<Rightarrow> cell list \<Rightarrow> pyerror + string \<times> log_record" where
  "compare_smas sma_short sma_long =
     (if int (isna_sum sma_short) \<ge> int (length sma_short) - 1
         \<or> int (isna_sum sma_long) \<ge> int (length sma_long) - 1
      then Inr (''HOLD'', NotEnoughNonNaN)
      else
        (case iloc sma_short (- 1) of Inl e \<Rightarrow> Inl e | Inr current_short_sma \<Rightarrow>
        (case iloc sma_short (- 2) of Inl e \<Rightarrow> Inl e | Inr previous_short_sma \<Rightarrow>
        (case iloc sma_long (- 1) of Inl e \<Rightarrow> Inl e | Inr current_long_sma \<Rightarrow>
        (case iloc sma_long (- 2) of Inl e \<Rightarrow> Inl e | Inr previous_long_sma \<Rightarrow>
          Inr (crossover_rule current_short_sma previous_short_sma
                 current_long_sma previous_long_sma))))))"

text \<open>
  \<open>generate_signal\<close> with the record it logs. The two rolling means are computed
  inside \<open>try\<close>; any exception there is caught and gives HOLD.
\<close>

definition generate_signal_logged ::
  "crossover \<Rightarrow> pyvalue \<Rightarrow> pyerror + string \<times> log_record" where
  "generate_signal_logged self historical_data =
     (case historical_data of
        DataFrame df \<Rightarrow>
          if empty_df df then Inr (''HOLD'', NoneOrEmpty)
          else (case map_of (columns df) ''close'' of
              None \<Rightarrow> Inr (''HOLD'', NoCloseColumn)
            | Some close \<Rightarrow>
                if int (index_len df) < long_window self then Inr (''HOLD'', NotEnoughData)
                else (case rolling_mean (short_window self) close of
                    Inl e \<Rightarrow> Inr (''HOLD'', ErrorCalculatingSMAs)
                  | Inr sma_short \<Rightarrow>
                     (case rolling_mean (long_window self) close of
                        Inl e \<Rightarrow> Inr (''HOLD'', ErrorCalculatingSMAs)
                      | Inr sma_long \<Rightarrow> compare_smas sma_short sma_long)))
      | _ \<Rightarrow> Inr (''HOLD'', NotDataFrame))"

text \<open>\<open>generate_signal\<close>: the returned signal, or the exception that escapes.\<close>

definition generate_signal :: "crossover \<Rightarrow> pyvalue \<Rightarrow> pyerror + string" where
  "generate_signal self historical_data =
     (case generate_signal_logged self historical_data of
        Inl e \<Rightarrow> Inl e
      | Inr (signal, record) \<Rightarrow> Inr signal)"

text \<open>A DataFrame with the single column \<open>close\<close>, as the source's own scenarios build.\<close>

definition close_frame :: "cell list \<Rightarrow> pyvalue" where
  "close_frame xs = DataFrame \<lparr>index_len = length xs, columns = [(''close'', Numeric xs)]\<rparr>"

section \<open>TradingEngine\<close>

text \<open>
  What a gateway call can raise: the three ccxt categories the engine names, any
  other instance of \<open>Exception\<close>, and an instance of \<open>BaseException\<close> only
  (KeyboardInterrupt, SystemExit), which \<open>except Exception\<close> does not catch.
\<close>

datatype exn =
    InsufficientFunds
  | NetworkError
  | ExchangeError
  | OtherException string
  | BaseExceptionOnly string

fun is_Exception :: "exn \<Rightarrow> bool" where
  "is_Exception (BaseExceptionOnly name) = False"
| "is_Exception e = True"

text \<open>The calls made on the gateway, in order.\<close>

datatype gateway_call = MarketBuy string rat | MarketSell string rat

text \<open>
  The exchange object: each order method answers with an order result (which may be
  Python's None) or raises. \<open>'r\<close> is the type of order results.
\<close>

record 'r exchange =
  create_market_buy_order :: "string \<Rightarrow> rat \<Rightarrow> exn + 'r option"
  create_market_sell_order :: "string \<Rightarrow> rat \<Rightarrow> exn + 'r option"

record 'r exchange_handler =
  exchange :: "'r exchange option"

record 'r trading_engine =
  exchange_handler :: "'r exchange_handler option"

text \<open>
  The body of the \<open>try\<close> block: the dispatch on the signal string, with the gateway
  calls it makes.
\<close>

definition dispatch ::
  "'r exchange \<Rightarrow> string \<Rightarrow> string \<Rightarrow> rat \<Rightarrow> (exn + 'r option) \<times> gateway_call list" where
  "dispatch ex symbol signal quantity =
     (if signal = ''BUY''
        then (create_market_buy_order ex symbol quantity, [MarketBuy symbol quantity])
      else if signal = ''SELL''
        then (create_market_sell_order ex symbol quantity, [MarketSell symbol quantity])
      else if signal = ''HOLD'' then (Inr None, [])
      else (Inr None, []))"

text \<open>The four \<open>except\<close> clauses, in source order; anything they do not match propagates.\<close>

definition handle_exn :: "exn \<Rightarrow> exn + 'r option" where
  "handle_exn e =
     (if e = InsufficientFunds then Inr None
      else if e = NetworkError then Inr None
      else if e = ExchangeError then Inr None
      else if is_Exception e then Inr None
      else Inl e)"

text \<open>
  \<open>execute_trade\<close>: the value returned (\<open>Inr None\<close> is Python's None) or the
  exception that escapes, and the gateway calls made.
\<close>

definition execute_trade ::
  "'r trading_engine \<Rightarrow> string \<Rightarrow> string \<Rightarrow> rat \<Rightarrow> (exn + 'r option) \<times> gateway_call list" where
  "execute_trade self symbol signal quantity =
     (case exchange_handler self of
        None \<Rightarrow> (Inr None, [])
      | Some handler \<Rightarrow>
         (case exchange handler of
            None \<Rightarrow> (Inr None, [])
          | Some ex \<Rightarrow>
             (case dispatch ex symbol signal quantity of
                (Inl e, calls) \<Rightarrow> (handle_exn e, calls)
              | (Inr order_result, calls) \<Rightarrow> (Inr order_result, calls))))"

text \<open>
  The mock exchange of the source's own example run. Its order results carry the
  fields below; the list of orders the mock keeps for itself is not modelled.
\<close>

record order =
  order_id :: string
  order_symbol :: string
  order_type :: string
  order_side :: string
  order_amount :: rat
  order_status :: string

definition MockCCXTExchange :: "order exchange" where
  "MockCCXTExchange =
     \<lparr>create_market_buy_order = (\<lambda>symbol quantity.
        if symbol = ''BTC/USDT'' \<and> quantity > 0
        then Inr (Some \<lparr>order_id = ''mock_buy_123'', order_symbol = symbol,
                order_type = ''market'', order_side = ''buy'',
                order_amount = quantity, order_status = ''closed''\<rparr>)
        else if symbol = ''FAIL/USDT'' then Inl ExchangeError
        else if symbol = ''FUNDS/USDT'' then Inl InsufficientFunds
        else Inr None),
      create_market_sell_order = (\<lambda>symbol quantity.
        if symbol = ''ETH/USDT'' \<and> quantity > 0
        then Inr (Some \<lparr>order_id = ''mock_sell_456'', order_symbol = symbol,
                order_type = ''market'', order_side = ''sell'',
                order_amount = quantity, order_status = ''closed''\<rparr>)
        else Inr None)\<rparr>"

definition MockExchangeHandler :: "order exchange_handler" where
  "MockExchangeHandler = \<lparr>exchange = Some MockCCXTExchange\<rparr>"

definition mock_engine :: "order trading_engine" where
  "mock_engine = \<lparr>exchange_handler = Some MockExchangeHandler\<rparr>"

section \<open>Scenarios\<close>

text \<open>
  The bullish scenario of the source's example run: the closes, the generator, and
  one row of its loop over growing prefixes \<open>bullish_df.iloc[:i]\<close>, which reports
  the previous and current short average, the previous and current long average,
  and the signal.
\<close>

definition bullish_closes :: "cell list" where
  "bullish_closes = map Some [20, 19, 18, 17, 16, 15, 18, 22, 23]"

definition mavg_bullish_gen :: crossover where
  "mavg_bullish_gen = \<lparr>short_window = 3, long_window = 5\<rparr>"

definition iloc_of :: "pyerror + cell list \<Rightarrow> int \<Rightarrow> pyerror + cell" where
  "iloc_of series i = (case series of Inl e \<Rightarrow> Inl e | Inr xs \<Rightarrow> iloc xs i)"

definition scenario_row ::
  "crossover \<Rightarrow> cell list \<Rightarrow> nat \<Rightarrow>
     (pyerror + cell) \<times> (pyerror + cell) \<times> (pyerror + cell) \<times> (pyerror + cell) \<times> (pyerror + string)" where
  "scenario_row gen closes i =
     (let current_data = take i closes;
          signal = generate_signal gen (close_frame current_data);
          sma_s = rolling_mean (short_window gen) (Numeric current_data);
          sma_l = rolling_mean (long_window gen) (Numeric current_data)
      in (iloc_of sma_s (- 2), iloc_of sma_s (- 1), iloc_of sma_l (- 2), iloc_of sma_l (- 1), signal))"

text \<open>
  A series that crosses at its last close: \<open>n\<close> closes of 0, then one close of 1.
\<close>

definition step_series :: "nat \<Rightarrow> cell list" where
  "step_series n = replicate n (Some 0) @ [Some 1]"

section \<open>Construction of the crossover generator\<close>

text \<open>
  C6. Constructing a MovingAverageCrossover generator raises the configuration error
  (ValueError) exactly when \<open>short_window \<ge> long_window\<close>: for such a pair it never
  yields a generator, and for \<open>short_window < long_window\<close> it yields a generator
  that stores both windows.
\<close>

theorem crossover_init_iff:
  "(crossover_init sw lw = Inl ValueError \<longleftrightarrow> sw \<ge> lw) \<and>
   (sw \<ge> lw \<longrightarrow> (\<forall>g. crossover_init sw lw \<noteq> Inr g)) \<and>
   (sw < lw \<longrightarrow> (\<exists>g. crossover_init sw lw = Inr g \<and> short_window g = sw \<and> long_window g = lw))"
  by (simp add: crossover_init_def)

theorem crossover_init_iff_witness:
  "crossover_init 10 5 = Inl ValueError \<and> (\<forall>g. crossover_init 10 5 \<noteq> Inr g) \<and>
   crossover_init 5 5 = Inl ValueError \<and>
   (\<exists>g. crossover_init 3 5 = Inr g \<and> short_window g = 3 \<and> long_window g = 5)"
  using crossover_init_iff [of 10 5] crossover_init_iff [of 5 5] crossover_init_iff [of 3 5]
  by simp

section \<open>Trade dispatch\<close>

lemma handle_exn_Exception: "is_Exception e \<Longrightarrow> handle_exn e = Inr None"
  by (simp add: handle_exn_def)

lemma mock_engine_gateway:
  "exchange_handler mock_engine = Some MockExchangeHandler"
  "exchange MockExchangeHandler = Some MockCCXTExchange"
  by (simp_all add: mock_engine_def MockExchangeHandler_def)

text \<open>
  C7. For every engine, symbol and quantity, \<open>execute_trade\<close> with the signal HOLD
  makes no gateway call and returns None, and so it does with an unrecognized signal
  such as "WAIT" (any signal that is neither BUY nor SELL); no exception escapes.
\<close>

theorem execute_trade_hold_or_unrecognized:
  "execute_trade self symbol ''HOLD'' quantity = (Inr None, []) \<and>
   execute_trade self symbol ''WAIT'' quantity = (Inr None, []) \<and>
   (signal \<noteq> ''BUY'' \<and> signal \<noteq> ''SELL'' \<longrightarrow>
      execute_trade self symbol signal quantity = (Inr None, []))"
  by (simp add: execute_trade_def dispatch_def split: option.splits)

theorem execute_trade_hold_or_unrecognized_witness:
  "execute_trade mock_engine ''ADA/USDT'' ''HOLD'' 100 = (Inr None, []) \<and>
   execute_trade mock_engine ''SOL/USDT'' ''WAIT'' 10 = (Inr None, []) \<and>
   execute_trade mock_engine ''SOL/USDT'' ''STOP'' 10 = (Inr None, [])"
  using execute_trade_hold_or_unrecognized [of mock_engine "''ADA/USDT''" 100 "''STOP''"]
    execute_trade_hold_or_unrecognized [of mock_engine "''SOL/USDT''" 10 "''STOP''"]
  by simp

text \<open>
  C8. For a BUY or SELL dispatch on an initialized gateway, if the order call raises
  an exception (InsufficientFunds, NetworkError, ExchangeError or any other instance
  of Exception), \<open>execute_trade\<close> returns None and the exception does not escape;
  every category gives the same outcome.
\<close>

theorem execute_trade_absorbs_failure:
  assumes "exchange_handler self = Some handler" and "exchange handler = Some ex"
    and "(signal = ''BUY'' \<and> create_market_buy_order ex symbol quantity = Inl e)
       \<or> (signal = ''SELL'' \<and> create_market_sell_order ex symbol quantity = Inl e)"
    and "is_Exception e"
  shows "fst (execute_trade self symbol signal quantity) = Inr None"
  using assms by (auto simp: execute_trade_def dispatch_def handle_exn_Exception)

theorem execute_trade_absorbs_failure_witness:
  "create_market_buy_order MockCCXTExchange ''FAIL/USDT'' 1 = Inl ExchangeError \<and>
   fst (execute_trade mock_engine ''FAIL/USDT'' ''BUY'' 1) = Inr None \<and>
   create_market_buy_order MockCCXTExchange ''FUNDS/USDT'' 1 = Inl InsufficientFunds \<and>
   fst (execute_trade mock_engine ''FUNDS/USDT'' ''BUY'' 1) = Inr None"
proof -
  have fail: "create_market_buy_order MockCCXTExchange ''FAIL/USDT'' 1 = Inl ExchangeError"
    by (simp add: MockCCXTExchange_def)
  have funds: "create_market_buy_order MockCCXTExchange ''FUNDS/USDT'' 1 = Inl InsufficientFunds"
    by (simp add: MockCCXTExchange_def)
  have "fst (execute_trade mock_engine ''FAIL/USDT'' ''BUY'' 1) = Inr None"
    using execute_trade_absorbs_failure [OF mock_engine_gateway, of "''BUY''" "''FAIL/USDT''" 1 ExchangeError]
      fail by simp
  moreover have "fst (execute_trade mock_engine ''FUNDS/USDT'' ''BUY'' 1) = Inr None"
    using execute_trade_absorbs_failure [OF mock_engine_gateway, of "''BUY''" "''FUNDS/USDT''" 1 InsufficientFunds]
      funds by simp
  ultimately show ?thesis using fail funds by simp
qed

text \<open>
  C9. For a BUY or SELL signal on an initialized gateway whose order call succeeds,
  \<open>execute_trade\<close> returns the very value the gateway returned: the whole result,
  so every field of it, unchanged.
\<close>

theorem execute_trade_returns_result:
  assumes "exchange_handler self = Some handler" and "exchange handler = Some ex"
    and "(signal = ''BUY'' \<and> create_market_buy_order ex symbol quantity = Inr order_result)
       \<or> (signal = ''SELL'' \<and> create_market_sell_order ex symbol quantity = Inr order_result)"
  shows "fst (execute_trade self symbol signal quantity) = Inr order_result"
  using assms by (auto simp: execute_trade_def dispatch_def)

theorem execute_trade_returns_result_witness:
  "fst (execute_trade mock_engine ''ETH/USDT'' ''SELL'' (1 / 2)) =
     Inr (Some \<lparr>order_id = ''mock_sell_456'', order_symbol = ''ETH/USDT'',
                order_type = ''market'', order_side = ''sell'',
                order_amount = 1 / 2, order_status = ''closed''\<rparr>)"
proof -
  have "create_market_sell_order MockCCXTExchange ''ETH/USDT'' (1 / 2) =
     Inr (Some \<lparr>order_id = ''mock_sell_456'', order_symbol = ''ETH/USDT'',
                order_type = ''market'', order_side = ''sell'',
                order_amount = 1 / 2, order_status = ''closed''\<rparr>)"
    by (simp add: MockCCXTExchange_def)
  then show ?thesis
    using execute_trade_returns_result [OF mock_engine_gateway, of "''SELL''" "''ETH/USDT''" "1 / 2"]
    by simp
qed

text \<open>
  C10. The dispatch compares the signal with the exact strings "BUY", "SELL" and
  "HOLD": a gateway call is made only for "BUY" or "SELL", and any other string,
  a lowercase "buy" or "sell" included, makes no gateway call and returns None.
\<close>

theorem execute_trade_exact_match:
  "(snd (execute_trade self symbol signal quantity) \<noteq> [] \<longrightarrow> signal = ''BUY'' \<or> signal = ''SELL'') \<and>
   (signal \<notin> {''BUY'', ''SELL'', ''HOLD''} \<longrightarrow> execute_trade self symbol signal quantity = (Inr None, [])) \<and>
   execute_trade self symbol ''buy'' quantity = (Inr None, []) \<and>
   execute_trade self symbol ''sell'' quantity = (Inr None, []) \<and>
   execute_trade self symbol ''hold'' quantity = (Inr None, []) \<and>
   execute_trade self symbol ''Buy'' quantity = (Inr None, [])"
  by (simp add: execute_trade_def dispatch_def split: option.splits)

theorem execute_trade_exact_match_witness:
  "snd (execute_trade mock_engine ''BTC/USDT'' ''BUY'' 1) = [MarketBuy ''BTC/USDT'' 1] \<and>
   execute_trade mock_engine ''BTC/USDT'' ''buy'' 1 = (Inr None, []) \<and>
   execute_trade mock_engine ''BTC/USDT'' ''Sell'' 1 = (Inr None, [])"
proof -
  have "snd (execute_trade mock_engine ''BTC/USDT'' ''BUY'' 1) = [MarketBuy ''BTC/USDT'' 1]"
    by (simp add: execute_trade_def dispatch_def mock_engine_def MockExchangeHandler_def
        MockCCXTExchange_def)
  then show ?thesis
    using execute_trade_exact_match [of mock_engine "''BTC/USDT''" "''BUY''" 1]
      execute_trade_exact_match [of mock_engine "''BTC/USDT''" "''Sell''" 1]
    by simp
qed

section \<open>Signal generation\<close>

text \<open>
  C5. For every input of \<open>generate_signal\<close> that is not a DataFrame (None or a plain
  list, say), or is an empty DataFrame, or has no \<open>close\<close> column, the call returns
  HOLD and raises nothing.
\<close>

theorem generate_signal_malformed:
  assumes "(\<forall>df. historical_data \<noteq> DataFrame df)
        \<or> (\<exists>df. historical_data = DataFrame df \<and>
             (empty_df df \<or> map_of (columns df) ''close'' = None))"
  shows "generate_signal self historical_data = Inr ''HOLD''"
  using assms
  by (cases historical_data) (auto simp: generate_signal_def generate_signal_logged_def)

theorem generate_signal_malformed_witness:
  "generate_signal \<lparr>short_window = 3, long_window = 6\<rparr> PyNone = Inr ''HOLD'' \<and>
   generate_signal \<lparr>short_window = 3, long_window = 6\<rparr> (PyList [1, 2, 3, 4, 5, 6, 7, 8, 9, 10])
     = Inr ''HOLD'' \<and>
   generate_signal \<lparr>short_window = 3, long_window = 6\<rparr> (close_frame []) = Inr ''HOLD'' \<and>
   generate_signal \<lparr>short_window = 3, long_window = 6\<rparr>
     (DataFrame \<lparr>index_len = 3, columns = [(''open'', Numeric [Some 1, Some 2, Some 3]),
        (''high'', Numeric [Some 4, Some 5, Some 6])]\<rparr>) = Inr ''HOLD''"
proof -
  let ?g = "\<lparr>short_window = 3, long_window = 6\<rparr>"
  have "generate_signal ?g PyNone = Inr ''HOLD''"
    using generate_signal_malformed [of PyNone ?g] by simp
  moreover have "generate_signal ?g (PyList [1, 2, 3, 4, 5, 6, 7, 8, 9, 10]) = Inr ''HOLD''"
    using generate_signal_malformed [of "PyList [1, 2, 3, 4, 5, 6, 7, 8, 9, 10]" ?g] by simp
  moreover have "generate_signal ?g (close_frame []) = Inr ''HOLD''"
    using generate_signal_malformed [of "close_frame []" ?g]
    by (simp add: close_frame_def empty_df_def)
  moreover have "generate_signal ?g
     (DataFrame \<lparr>index_len = 3, columns = [(''open'', Numeric [Some 1, Some 2, Some 3]),
        (''high'', Numeric [Some 4, Some 5, Some 6])]\<rparr>) = Inr ''HOLD''"
    using generate_signal_malformed [of "DataFrame \<lparr>index_len = 3,
        columns = [(''open'', Numeric [Some 1, Some 2, Some 3]),
        (''high'', Numeric [Some 4, Some 5, Some 6])]\<rparr>" ?g]
    by simp
  ultimately show ?thesis by simp
qed

subsection \<open>Reading the trailing averages\<close>

lemma iloc_last: "iloc xs (- 1) = Inr v \<longleftrightarrow> xs \<noteq> [] \<and> v = xs ! (length xs - 1)"
  by (cases xs) (auto simp: iloc_def nat_diff_distrib' nat_add_distrib)

lemma iloc_prev: "iloc xs (- 2) = Inr v \<longleftrightarrow> 2 \<le> length xs \<and> v = xs ! (length xs - 2)"
proof (cases "2 \<le> length xs")
  case True
  then have "nat (- 2 + int (length xs)) = length xs - 2" by linarith
  with True show ?thesis by (auto simp: iloc_def)
next
  case False
  then show ?thesis by (auto simp: iloc_def)
qed

lemma isna_sum_compl: "isna_sum xs + length (filter (\<lambda>c. c \<noteq> None) xs) = length xs"
  unfolding isna_sum_def using sum_length_filter_compl [of "\<lambda>c. c = None" xs] by simp

lemma two_defined:
  assumes "i < length xs" "j < length xs" "i \<noteq> j" "xs ! i \<noteq> None" "xs ! j \<noteq> None"
  shows "isna_sum xs + 2 \<le> length xs"
proof -
  have "{i, j} \<subseteq> {k. k < length xs \<and> xs ! k \<noteq> None}" using assms by auto
  then have "card {i, j} \<le> card {k. k < length xs \<and> xs ! k \<noteq> None}"
    by (intro card_mono) auto
  moreover have "card {i, j} = 2" using assms(3) by simp
  ultimately have "2 \<le> length (filter (\<lambda>c. c \<noteq> None) xs)"
    by (simp add: length_filter_conv_card)
  then show ?thesis using isna_sum_compl [of xs] by linarith
qed

lemma trailing_defined_passes_guard:
  assumes "iloc xs (- 1) = Inr (Some a)" "iloc xs (- 2) = Inr (Some b)"
  shows "\<not> int (isna_sum xs) \<ge> int (length xs) - 1"
proof -
  from assms have len: "2 \<le> length xs" and a: "xs ! (length xs - 1) = Some a"
    and b: "xs ! (length xs - 2) = Some b"
    by (simp_all add: iloc_last iloc_prev)
  have "isna_sum xs + 2 \<le> length xs"
    by (rule two_defined [of "length xs - 1" xs "length xs - 2"]) (use len a b in auto)
  then show ?thesis by linarith
qed

lemma compare_smas_defined:
  assumes "iloc ss (- 1) = Inr (Some cs)" "iloc ss (- 2) = Inr (Some ps)"
    "iloc ls (- 1) = Inr (Some cl)" "iloc ls (- 2) = Inr (Some pl)"
  shows "compare_smas ss ls = Inr (crossover_rule (Some cs) (Some ps) (Some cl) (Some pl))"
  using trailing_defined_passes_guard [OF assms(1,2)] trailing_defined_passes_guard [OF assms(3,4)] assms
  by (simp add: compare_smas_def)

lemma compare_smas_guard:
  "int (isna_sum ss) \<ge> int (length ss) - 1 \<or> int (isna_sum ls) \<ge> int (length ls) - 1
   \<Longrightarrow> compare_smas ss ls = Inr (''HOLD'', NotEnoughNonNaN)"
  by (simp add: compare_smas_def)

lemma compare_smas_no_guard:
  assumes "\<not> (int (isna_sum ss) \<ge> int (length ss) - 1 \<or> int (isna_sum ls) \<ge> int (length ls) - 1)"
  shows "compare_smas ss ls =
     Inr (crossover_rule (ss ! (length ss - 1)) (ss ! (length ss - 2))
            (ls ! (length ls - 1)) (ls ! (length ls - 2)))"
proof -
  from assms have "2 \<le> length ss" "2 \<le> length ls" by linarith+
  then have "iloc ss (- 1) = Inr (ss ! (length ss - 1))" "iloc ss (- 2) = Inr (ss ! (length ss - 2))"
    "iloc ls (- 1) = Inr (ls ! (length ls - 1))" "iloc ls (- 2) = Inr (ls ! (length ls - 2))"
    by (auto simp: iloc_last iloc_prev)
  with assms show ?thesis by (simp add: compare_smas_def)
qed

lemma rolling_mean_at_short: "Suc i < w \<Longrightarrow> rolling_mean_at w xs i = None"
proof -
  assume lt: "Suc i < w"
  have "length (filter (\<lambda>c. c \<noteq> None) (drop (Suc i - w) (take (Suc i) xs))) \<le>
        length (drop (Suc i - w) (take (Suc i) xs))" by (rule length_filter_le)
  also have "\<dots> \<le> Suc i" by simp
  finally show ?thesis using lt by (simp add: rolling_mean_at_def Let_def)
qed

lemma rolling_mean_Numeric:
  "rolling_mean w c = Inr ys \<longleftrightarrow>
     0 \<le> w \<and> (\<exists>xs. c = Numeric xs \<and> ys = map (rolling_mean_at (nat w) xs) [0..<length xs])"
  by (cases c) (auto simp: rolling_mean_def)

lemma short_history_nan:
  assumes "length xs \<le> w"
  shows "length xs - 1 \<le> isna_sum (map (rolling_mean_at w xs) [0..<length xs])"
proof -
  let ?ys = "map (rolling_mean_at w xs) [0..<length xs]"
  have "{k. k < length xs - 1} \<subseteq> {k. k < length ?ys \<and> ?ys ! k = None}"
    using assms by (auto simp: rolling_mean_at_short)
  then have "card {k. k < length xs - 1} \<le> card {k. k < length ?ys \<and> ?ys ! k = None}"
    by (intro card_mono) auto
  then show ?thesis by (simp add: isna_sum_def length_filter_conv_card)
qed

lemma wf_close_len:
  assumes "wf_dataframe df" "map_of (columns df) ''close'' = Some c"
  shows "column_len c = index_len df"
proof -
  from assms(2) have "(''close'', c) \<in> set (columns df)" by (rule map_of_SomeD)
  with assms(1) show ?thesis by (auto simp: wf_dataframe_def list_all_iff)
qed

lemma hold_up_to_long_window:
  assumes wf: "wf_dataframe df" and len: "int (index_len df) \<le> long_window self"
  shows "generate_signal self (DataFrame df) = Inr ''HOLD''"
proof (cases "empty_df df \<or> map_of (columns df) ''close'' = None \<or> int (index_len df) < long_window self")
  case True
  then show ?thesis
    by (auto simp: generate_signal_def generate_signal_logged_def split: option.splits sum.splits)
next
  case False
  then obtain c where c: "map_of (columns df) ''close'' = Some c" by auto
  from False len have eq: "long_window self = int (index_len df)" by linarith
  show ?thesis
  proof (cases "rolling_mean (short_window self) c")
    case (Inl e)
    with False c show ?thesis
      by (simp add: generate_signal_def generate_signal_logged_def)
  next
    case ss: (Inr ss)
    show ?thesis
    proof (cases "rolling_mean (long_window self) c")
      case (Inl e)
      with False c ss show ?thesis
        by (simp add: generate_signal_def generate_signal_logged_def)
    next
      case ls: (Inr ls)
      then obtain xs where xs: "c = Numeric xs"
        and lsd: "ls = map (rolling_mean_at (nat (long_window self)) xs) [0..<length xs]"
        by (auto simp: rolling_mean_Numeric)
      from wf_close_len [OF wf c] xs have n: "length xs = index_len df" by simp
      have "length xs - 1 \<le> isna_sum ls"
        unfolding lsd by (rule short_history_nan) (simp add: eq n)
      moreover have "length ls = length xs" by (simp add: lsd)
      ultimately have "int (isna_sum ls) \<ge> int (length ls) - 1" by linarith
      then have "compare_smas ss ls = Inr (''HOLD'', NotEnoughNonNaN)"
        by (simp add: compare_smas_guard)
      with False c ss ls show ?thesis
        by (simp add: generate_signal_def generate_signal_logged_def)
    qed
  qed
qed

lemma generate_signal_logged_computed:
  assumes "\<not> empty_df df" "map_of (columns df) ''close'' = Some c"
    "long_window self \<le> int (index_len df)"
    "rolling_mean (short_window self) c = Inr ss" "rolling_mean (long_window self) c = Inr ls"
  shows "generate_signal_logged self (DataFrame df) = compare_smas ss ls"
  using assms by (simp add: generate_signal_logged_def)

subsection \<open>A series that crosses at length \<open>long_window + 1\<close>\<close>


lemma obs_replicate: "map the (filter (\<lambda>c. c \<noteq> None) (replicate k (Some (q::rat)))) = replicate k q"
  by (induction k) auto

lemma rolling_step_current:
  assumes "1 \<le> w" "w \<le> Suc n"
  shows "rolling_mean_at w (step_series n) n = Some (1 / of_nat w)"
proof -
  have "drop (Suc n - w) (take (Suc n) (step_series n)) = replicate (w - 1) (Some 0) @ [Some 1]"
    using assms by (simp add: step_series_def)
  moreover have "map the (filter (\<lambda>c. c \<noteq> None) (replicate (w - 1) (Some (0::rat)) @ [Some 1]))
      = replicate (w - 1) 0 @ [1]"
    by (simp add: obs_replicate)
  ultimately show ?thesis using assms by (simp add: rolling_mean_at_def sum_list_replicate)
qed

lemma rolling_step_previous:
  assumes "1 \<le> w" "w \<le> n"
  shows "rolling_mean_at w (step_series n) (n - 1) = Some 0"
proof -
  have "drop (Suc (n - 1) - w) (take (Suc (n - 1)) (step_series n)) = replicate w (Some 0)"
    using assms by (simp add: step_series_def)
  then show ?thesis using assms by (simp add: rolling_mean_at_def obs_replicate sum_list_replicate)
qed

lemma rolling_step_trailing:
  assumes "1 \<le> w" "w \<le> int n"
  shows "\<exists>ys. rolling_mean w (Numeric (step_series n)) = Inr ys \<and>
           iloc ys (- 1) = Inr (Some (1 / of_int w)) \<and> iloc ys (- 2) = Inr (Some 0)"
proof -
  let ?ys = "map (rolling_mean_at (nat w) (step_series n)) [0..<length (step_series n)]"
  have len: "length (step_series n) = Suc n" by (simp add: step_series_def)
  have w: "1 \<le> nat w" "nat w \<le> n" using assms by linarith+
  have "rolling_mean w (Numeric (step_series n)) = Inr ?ys"
    using assms by (simp add: rolling_mean_def)
  moreover have "iloc ?ys (- 1) = Inr (Some (1 / of_int w))"
    using rolling_step_current [of "nat w" n] w assms by (simp add: iloc_last len del: upt_Suc)
  moreover have "iloc ?ys (- 2) = Inr (Some 0)"
    using rolling_step_previous [of "nat w" n] w by (simp add: iloc_prev len del: upt_Suc)
  ultimately show ?thesis by blast
qed

lemma step_series_buy:
  assumes "1 \<le> short_window self" "short_window self < long_window self"
  shows "generate_signal self (close_frame (step_series (nat (long_window self)))) = Inr ''BUY''"
proof -
  let ?n = "nat (long_window self)"
  let ?df = "\<lparr>index_len = length (step_series ?n), columns = [(''close'', Numeric (step_series ?n))]\<rparr>"
  have n: "long_window self = int ?n" using assms by simp
  obtain ss where ss: "rolling_mean (short_window self) (Numeric (step_series ?n)) = Inr ss"
    "iloc ss (- 1) = Inr (Some (1 / of_int (short_window self)))" "iloc ss (- 2) = Inr (Some 0)"
    using rolling_step_trailing [of "short_window self" ?n] assms by auto
  obtain ls where ls: "rolling_mean (long_window self) (Numeric (step_series ?n)) = Inr ls"
    "iloc ls (- 1) = Inr (Some (1 / of_int (long_window self)))" "iloc ls (- 2) = Inr (Some 0)"
    using rolling_step_trailing [of "long_window self" ?n] assms by auto
  have ne: "\<not> empty_df ?df" by (simp add: empty_df_def step_series_def)
  have close: "map_of (columns ?df) ''close'' = Some (Numeric (step_series ?n))" by simp
  have enough: "long_window self \<le> int (index_len ?df)" using n by (simp add: step_series_def)
  have "generate_signal_logged self (DataFrame ?df) =
      Inr (crossover_rule (Some (1 / of_int (short_window self))) (Some 0)
            (Some (1 / of_int (long_window self))) (Some 0))"
    using generate_signal_logged_computed [OF ne close enough ss(1) ls(1)]
      compare_smas_defined [OF ss(2,3) ls(2,3)] by simp
  moreover have "(1::rat) / of_int (long_window self) < 1 / of_int (short_window self)"
    using assms by (simp add: frac_less2)
  ultimately show ?thesis
    by (simp add: generate_signal_def crossover_rule_def close_frame_def)
qed

lemma wf_close_frame: "wf_dataframe \<lparr>index_len = length xs, columns = [(''close'', Numeric xs)]\<rparr>"
  by (simp add: wf_dataframe_def)

subsection \<open>The crossover rule\<close>

text \<open>
  C1. Whenever the current and previous short average \<open>cs\<close>, \<open>ps\<close> and the current
  and previous long average \<open>cl\<close>, \<open>pl\<close> of the \<open>close\<close> column are all defined,
  \<open>generate_signal\<close> returns BUY iff \<open>cs > cl\<close> and \<open>ps \<le> pl\<close>, SELL iff
  \<open>cs < cl\<close> and \<open>ps \<ge> pl\<close>, and HOLD in every other case.
\<close>

theorem crossover_decision:
  assumes wf: "wf_dataframe df"
    and close: "map_of (columns df) ''close'' = Some c"
    and short: "rolling_mean (short_window self) c = Inr sma_short"
    and long: "rolling_mean (long_window self) c = Inr sma_long"
    and cs: "iloc sma_short (- 1) = Inr (Some cs)"
    and ps: "iloc sma_short (- 2) = Inr (Some ps)"
    and cl: "iloc sma_long (- 1) = Inr (Some cl)"
    and pl: "iloc sma_long (- 2) = Inr (Some pl)"
  shows "(generate_signal self (DataFrame df) = Inr ''BUY'' \<longleftrightarrow> cs > cl \<and> ps \<le> pl) \<and>
         (generate_signal self (DataFrame df) = Inr ''SELL'' \<longleftrightarrow> cs < cl \<and> ps \<ge> pl) \<and>
         (generate_signal self (DataFrame df) = Inr ''HOLD'' \<longleftrightarrow>
            \<not> (cs > cl \<and> ps \<le> pl) \<and> \<not> (cs < cl \<and> ps \<ge> pl))"
proof -
  from long obtain xs where xs: "c = Numeric xs"
    and lsd: "sma_long = map (rolling_mean_at (nat (long_window self)) xs) [0..<length xs]"
    by (auto simp: rolling_mean_Numeric)
  from wf_close_len [OF wf close] xs have n: "length xs = index_len df" by simp
  from pl have len2: "2 \<le> length xs" by (simp add: iloc_prev lsd)
  from cl have "rolling_mean_at (nat (long_window self)) xs (length xs - 1) = Some cl"
    using len2 by (simp add: iloc_last lsd)
  then have "\<not> Suc (length xs - 1) < nat (long_window self)"
    using rolling_mean_at_short [of "length xs - 1" "nat (long_window self)" xs] by auto
  with len2 n have enough: "long_window self \<le> int (index_len df)" by linarith
  from close have "columns df \<noteq> []" by auto
  with len2 n have ne: "\<not> empty_df df" by (simp add: empty_df_def)
  have "generate_signal_logged self (DataFrame df) =
          Inr (crossover_rule (Some cs) (Some ps) (Some cl) (Some pl))"
    using generate_signal_logged_computed [OF ne close enough short long]
      compare_smas_defined [OF cs ps cl pl] by simp
  then show ?thesis
    by (simp add: generate_signal_def crossover_rule_def)
qed

theorem crossover_decision_witness:
  "generate_signal mavg_bullish_gen (close_frame (take 8 bullish_closes)) = Inr ''BUY'' \<and>
   (55 / 3 :: rat) > 88 / 5 \<and> (49 / 3 :: rat) \<le> 84 / 5"
proof -
  let ?xs = "take 8 bullish_closes"
  let ?df = "\<lparr>index_len = length ?xs, columns = [(''close'', Numeric ?xs)]\<rparr>"
  let ?ss = "[None, None, Some 19, Some 18, Some 17, Some 16, Some (49 / 3), Some (55 / 3 :: rat)]"
  let ?ls = "[None, None, None, None, Some 18, Some 17, Some (84 / 5), Some (88 / 5 :: rat)]"
  have wf: "wf_dataframe ?df" by (rule wf_close_frame)
  have close: "map_of (columns ?df) ''close'' = Some (Numeric ?xs)" by simp
  have short: "rolling_mean (short_window mavg_bullish_gen) (Numeric ?xs) = Inr ?ss"
    by code_simp
  have long: "rolling_mean (long_window mavg_bullish_gen) (Numeric ?xs) = Inr ?ls"
    by code_simp
  have cs: "iloc ?ss (- 1) = Inr (Some (55 / 3))" by (simp add: iloc_def)
  have ps: "iloc ?ss (- 2) = Inr (Some (49 / 3))" by (simp add: iloc_def)
  have cl: "iloc ?ls (- 1) = Inr (Some (88 / 5))" by (simp add: iloc_def)
  have pl: "iloc ?ls (- 2) = Inr (Some (84 / 5))" by (simp add: iloc_def)
  from crossover_decision [OF wf close short long cs ps cl pl]
  show ?thesis by (simp add: close_frame_def)
qed

subsection \<open>The shortest series that can give a verdict\<close>

text \<open>
  C2, as the code has it. A series of length \<open>long_window - 1\<close>, and one of length
  \<open>long_window\<close> too (any length up to \<open>long_window\<close>), always yields HOLD; for
  windows \<open>1 \<le> short_window < long_window\<close>, length \<open>long_window + 1\<close> is the
  first length at which \<open>generate_signal\<close> can return another verdict.
\<close>

theorem first_verdict_length:
  "(\<forall>df. wf_dataframe df \<and> int (index_len df) \<le> long_window self \<longrightarrow>
        generate_signal self (DataFrame df) = Inr ''HOLD'') \<and>
   (1 \<le> short_window self \<and> short_window self < long_window self \<longrightarrow>
      (\<exists>df. wf_dataframe df \<and> int (index_len df) = long_window self + 1 \<and>
            generate_signal self (DataFrame df) = Inr ''BUY''))"
proof (intro conjI allI impI)
  fix df assume "wf_dataframe df \<and> int (index_len df) \<le> long_window self"
  then show "generate_signal self (DataFrame df) = Inr ''HOLD''"
    by (simp add: hold_up_to_long_window)
next
  assume w: "1 \<le> short_window self \<and> short_window self < long_window self"
  let ?xs = "step_series (nat (long_window self))"
  let ?df = "\<lparr>index_len = length ?xs, columns = [(''close'', Numeric ?xs)]\<rparr>"
  have "wf_dataframe ?df" by (rule wf_close_frame)
  moreover have "int (index_len ?df) = long_window self + 1"
    using w by (simp add: step_series_def)
  moreover have "generate_signal self (DataFrame ?df) = Inr ''BUY''"
    using step_series_buy [of self] w by (simp add: close_frame_def)
  ultimately show "\<exists>df. wf_dataframe df \<and> int (index_len df) = long_window self + 1 \<and>
            generate_signal self (DataFrame df) = Inr ''BUY''" by blast
qed

theorem first_verdict_length_witness:
  "generate_signal mavg_bullish_gen (close_frame (take 5 bullish_closes)) = Inr ''HOLD'' \<and>
   (\<exists>df. wf_dataframe df \<and> index_len df = 6 \<and>
         generate_signal mavg_bullish_gen (DataFrame df) = Inr ''BUY'')"
proof -
  let ?xs = "take 5 bullish_closes"
  let ?df = "\<lparr>index_len = length ?xs, columns = [(''close'', Numeric ?xs)]\<rparr>"
  note fv = first_verdict_length [of mavg_bullish_gen]
  have "wf_dataframe ?df" by (rule wf_close_frame)
  moreover have "int (index_len ?df) \<le> long_window mavg_bullish_gen"
    by (simp add: mavg_bullish_gen_def bullish_closes_def)
  ultimately have "generate_signal mavg_bullish_gen (DataFrame ?df) = Inr ''HOLD''"
    using fv by blast
  moreover have "\<exists>df. wf_dataframe df \<and> index_len df = 6 \<and>
         generate_signal mavg_bullish_gen (DataFrame df) = Inr ''BUY''"
    using fv by (simp add: mavg_bullish_gen_def)
  ultimately show ?thesis by (simp add: close_frame_def)
qed

text \<open>
  The claim as the specification words it fails: with windows 3 and 5, no series of
  length exactly 5 yields a verdict other than HOLD.
\<close>

theorem length_long_window_counterexample:
  "\<not> (\<exists>df. wf_dataframe df \<and> index_len df = 5 \<and>
         generate_signal \<lparr>short_window = 3, long_window = 5\<rparr> (DataFrame df) \<noteq> Inr ''HOLD'')"
  using hold_up_to_long_window [of _ "\<lparr>short_window = 3, long_window = 5\<rparr>"] by auto

subsection \<open>The bullish scenario\<close>

text \<open>
  C3. With \<open>short_window = 3\<close> and \<open>long_window = 5\<close> on the growing prefixes of
  lengths 5 to 9 of the closes 20, 19, 18, 17, 16, 15, 18, 22, 23, the signal is HOLD
  at every prefix but one, where it is BUY. Each row lists the previous and current
  short average, the previous and current long average, and the signal: the short
  average is at or below the long one at lengths 5, 6 and 7, exceeds it for the first
  time at length 8 (55/3 against 88/5, after 49/3 against 84/5), where the BUY
  appears, and no BUY comes before.
\<close>

theorem bullish_scenario:
  "map (scenario_row mavg_bullish_gen bullish_closes) [5..<10] =
     [(Inr (Some 18), Inr (Some 17), Inr None, Inr (Some 18), Inr ''HOLD''),
      (Inr (Some 17), Inr (Some 16), Inr (Some 18), Inr (Some 17), Inr ''HOLD''),
      (Inr (Some 16), Inr (Some (49 / 3)), Inr (Some 17), Inr (Some (84 / 5)), Inr ''HOLD''),
      (Inr (Some (49 / 3)), Inr (Some (55 / 3)), Inr (Some (84 / 5)), Inr (Some (88 / 5)), Inr ''BUY''),
      (Inr (Some (55 / 3)), Inr (Some 21), Inr (Some (88 / 5)), Inr (Some (94 / 5)), Inr ''HOLD'')]"
  by code_simp

subsection \<open>The guard on the NaN counts\<close>

text \<open>
  C4. For a DataFrame with a \<open>close\<close> column and at least \<open>long_window\<close> rows,
  \<open>generate_signal\<close> returns HOLD whenever the number of NaN values in either
  average is at least the length minus one. On a non-empty frame this guard, as it is
  written, decides the rejection before the trailing averages are read: the return is
  the guard's own when the guard holds, and otherwise the four trailing averages are
  read and handed to the crossover rule. The guard is not the stricter test that the
  current and previous averages are defined: on the closes 1, 2, 3, NaN, 5 with windows
  1 and 2 the NaN counts are 1 and 3, below 4, while the current long average is NaN,
  and the rejection comes from the later NaN test.
\<close>

theorem nan_guard_decides:
  "(wf_dataframe df \<and> map_of (columns df) ''close'' = Some c \<and>
    long_window self \<le> int (index_len df) \<and>
    rolling_mean (short_window self) c = Inr sma_short \<and>
    rolling_mean (long_window self) c = Inr sma_long \<longrightarrow>
      (int (isna_sum sma_short) \<ge> int (length sma_short) - 1
         \<or> int (isna_sum sma_long) \<ge> int (length sma_long) - 1 \<longrightarrow>
         generate_signal self (DataFrame df) = Inr ''HOLD'') \<and>
      (\<not> empty_df df \<longrightarrow>
         generate_signal_logged self (DataFrame df) =
           (if int (isna_sum sma_short) \<ge> int (length sma_short) - 1
               \<or> int (isna_sum sma_long) \<ge> int (length sma_long) - 1
            then Inr (''HOLD'', NotEnoughNonNaN)
            else Inr (crossover_rule
                   (sma_short ! (length sma_short - 1)) (sma_short ! (length sma_short - 2))
                   (sma_long ! (length sma_long - 1)) (sma_long ! (length sma_long - 2)))))) \<and>
   rolling_mean 1 (Numeric [Some 1, Some 2, Some 3, None, Some 5])
     = Inr [Some 1, Some 2, Some 3, None, Some 5] \<and>
   rolling_mean 2 (Numeric [Some 1, Some 2, Some 3, None, Some 5])
     = Inr [None, Some (3 / 2), Some (5 / 2), None, None] \<and>
   generate_signal_logged \<lparr>short_window = 1, long_window = 2\<rparr>
       (close_frame [Some 1, Some 2, Some 3, None, Some 5]) = Inr (''HOLD'', NaNEncountered)"
proof (intro conjI impI)
  assume h: "wf_dataframe df \<and> map_of (columns df) ''close'' = Some c \<and>
    long_window self \<le> int (index_len df) \<and>
    rolling_mean (short_window self) c = Inr sma_short \<and>
    rolling_mean (long_window self) c = Inr sma_long"
  {
    assume g: "int (isna_sum sma_short) \<ge> int (length sma_short) - 1
         \<or> int (isna_sum sma_long) \<ge> int (length sma_long) - 1"
    show "generate_signal self (DataFrame df) = Inr ''HOLD''"
    proof (cases "empty_df df")
      case True
      then show ?thesis by (simp add: generate_signal_def generate_signal_logged_def)
    next
      case False
      with h g show ?thesis
        by (simp add: generate_signal_def generate_signal_logged_computed compare_smas_guard)
    qed
  }
  {
    assume ne: "\<not> empty_df df"
    show "generate_signal_logged self (DataFrame df) =
           (if int (isna_sum sma_short) \<ge> int (length sma_short) - 1
               \<or> int (isna_sum sma_long) \<ge> int (length sma_long) - 1
            then Inr (''HOLD'', NotEnoughNonNaN)
            else Inr (crossover_rule
                   (sma_short ! (length sma_short - 1)) (sma_short ! (length sma_short - 2))
                   (sma_long ! (length sma_long - 1)) (sma_long ! (length sma_long - 2))))"
      using h ne compare_smas_guard [of sma_short sma_long] compare_smas_no_guard [of sma_short sma_long]
      by (simp add: generate_signal_logged_computed)
  }
next
  show "rolling_mean 1 (Numeric [Some 1, Some 2, Some 3, None, Some 5])
     = Inr [Some 1, Some 2, Some 3, None, Some 5]" by code_simp
  show "rolling_mean 2 (Numeric [Some 1, Some 2, Some 3, None, Some 5])
     = Inr [None, Some (3 / 2), Some (5 / 2), None, None]" by code_simp
  show "generate_signal_logged \<lparr>short_window = 1, long_window = 2\<rparr>
       (close_frame [Some 1, Some 2, Some 3, None, Some 5]) = Inr (''HOLD'', NaNEncountered)"
    by code_simp
qed

theorem nan_guard_decides_witness:
  "generate_signal_logged mavg_bullish_gen (close_frame (take 5 bullish_closes))
     = Inr (''HOLD'', NotEnoughNonNaN) \<and>
   generate_signal mavg_bullish_gen (close_frame (take 5 bullish_closes)) = Inr ''HOLD'' \<and>
   generate_signal_logged mavg_bullish_gen (close_frame (take 8 bullish_closes))
     = Inr (''BUY'', SignalGenerated)"
proof -
  let ?xs = "take 5 bullish_closes"
  let ?df = "\<lparr>index_len = length ?xs, columns = [(''close'', Numeric ?xs)]\<rparr>"
  let ?ss = "[None, None, Some 19, Some 18, Some (17 :: rat)]"
  let ?ls = "[None, None, None, None, Some (18 :: rat)]"
  let ?ys = "take 8 bullish_closes"
  let ?df' = "\<lparr>index_len = length ?ys, columns = [(''close'', Numeric ?ys)]\<rparr>"
  let ?ss' = "[None, None, Some 19, Some 18, Some 17, Some 16, Some (49 / 3), Some (55 / 3 :: rat)]"
  let ?ls' = "[None, None, None, None, Some 18, Some 17, Some (84 / 5), Some (88 / 5 :: rat)]"
  have wf: "wf_dataframe ?df" "wf_dataframe ?df'" by (rule wf_close_frame)+
  have close: "map_of (columns ?df) ''close'' = Some (Numeric ?xs)"
    "map_of (columns ?df') ''close'' = Some (Numeric ?ys)" by simp_all
  have len: "long_window mavg_bullish_gen \<le> int (index_len ?df)"
    "long_window mavg_bullish_gen \<le> int (index_len ?df')"
    by (simp_all add: mavg_bullish_gen_def bullish_closes_def)
  have ne: "\<not> empty_df ?df" "\<not> empty_df ?df'"
    by (simp_all add: empty_df_def bullish_closes_def)
  have short: "rolling_mean (short_window mavg_bullish_gen) (Numeric ?xs) = Inr ?ss"
    by code_simp
  have long: "rolling_mean (long_window mavg_bullish_gen) (Numeric ?xs) = Inr ?ls"
    by code_simp
  have short': "rolling_mean (short_window mavg_bullish_gen) (Numeric ?ys) = Inr ?ss'"
    by code_simp
  have long': "rolling_mean (long_window mavg_bullish_gen) (Numeric ?ys) = Inr ?ls'"
    by code_simp
  have guard: "int (isna_sum ?ls) \<ge> int (length ?ls) - 1" by (simp add: isna_sum_def)
  have no_guard: "\<not> (int (isna_sum ?ss') \<ge> int (length ?ss') - 1
      \<or> int (isna_sum ?ls') \<ge> int (length ?ls') - 1)" by (simp add: isna_sum_def)
  have "generate_signal_logged mavg_bullish_gen (DataFrame ?df) = Inr (''HOLD'', NotEnoughNonNaN)"
    "generate_signal mavg_bullish_gen (DataFrame ?df) = Inr ''HOLD''"
    using nan_guard_decides [of ?df "Numeric ?xs" mavg_bullish_gen ?ss ?ls]
      wf(1) close(1) len(1) ne(1) short long guard by simp_all
  moreover have "generate_signal_logged mavg_bullish_gen (DataFrame ?df')
      = Inr (''BUY'', SignalGenerated)"
    using nan_guard_decides [of ?df' "Numeric ?ys" mavg_bullish_gen ?ss' ?ls']
      wf(2) close(2) len(2) ne(2) short' long' no_guard
    by (simp add: crossover_rule_def)
  ultimately show ?thesis by (simp add: close_frame_def)
qed

end
